theory Spec2Isabelle
  imports Main "HOL-Library.Sublist" "HOL-Library.Word"
begin

section \<open>The helm test double of pkg/exectest/helm.go\<close>

text \<open>
  The Go type \<^verbatim>\<open>Helm\<close> stands in for the helm binary in tests: each method
  records the call in a field of the struct and answers from the maps the test
  configured. Every method is embedded as a function that takes the struct and returns
  the method's results, together with the new struct when the method writes to it.
  A Go \<^verbatim>\<open>error\<close> result is an \<open>error option\<close>, \<open>None\<close> being \<^verbatim>\<open>nil\<close>;
  a panic is the \<open>Inl\<close> of a sum.
\<close>

subsection \<open>The packages strings, errors and fmt\<close>

text \<open>\<^verbatim>\<open>strings.HasPrefix(s, prefix)\<close> and \<^verbatim>\<open>strings.Contains(s, substr)\<close>.\<close>

fun strings_HasPrefix :: "string \<Rightarrow> string \<Rightarrow> bool" where
  "strings_HasPrefix s [] = True"
| "strings_HasPrefix [] (p # ps) = False"
| "strings_HasPrefix (c # cs) (p # ps) = (c = p \<and> strings_HasPrefix cs ps)"

fun strings_Contains :: "string \<Rightarrow> string \<Rightarrow> bool" where
  "strings_Contains [] substr = (substr = [])"
| "strings_Contains (c # cs) substr =
     (strings_HasPrefix (c # cs) substr \<or> strings_Contains cs substr)"

text \<open>\<^verbatim>\<open>strings.Join(elems, sep)\<close>.\<close>

fun strings_Join :: "string list \<Rightarrow> string \<Rightarrow> string" where
  "strings_Join [] sep = []"
| "strings_Join [e] sep = e"
| "strings_Join (e # e' # es) sep = e @ sep @ strings_Join (e' # es) sep"

text \<open>
  An error value made by \<^verbatim>\<open>errors.New\<close> or \<^verbatim>\<open>fmt.Errorf\<close>, or put into
  \<^verbatim>\<open>Diffs\<close> by a test, is its message.
\<close>

datatype error = Error string

text \<open>The ways a call of the double can panic.\<close>

datatype panic = NilPointerDereference | MustParsePanic string

text \<open>\<^verbatim>\<open>fmt.Sprintf("%v", b)\<close> for a bool.\<close>

definition fmt_bool :: "bool \<Rightarrow> string" where
  "fmt_bool b = (if b then ''true'' else ''false'')"

subsection \<open>The data model\<close>

record ListKey =
  ListKey_Filter :: string
  ListKey_Flags :: string

text \<open>The method \<^verbatim>\<open>String\<close> of \<^verbatim>\<open>ListKey\<close>; \<^verbatim>\<open>%v\<close> prints a \<^verbatim>\<open>ListKey\<close> with it.\<close>

definition ListKey_String :: "ListKey \<Rightarrow> string" where
  "ListKey_String k =
     ''listkey(filter='' @ ListKey_Filter k @ '',flags='' @ ListKey_Flags k @ '')''"

record DiffKey =
  DiffKey_Name :: string
  DiffKey_Chart :: string
  DiffKey_Flags :: string

text \<open>
  \<^verbatim>\<open>DiffKey\<close> has no \<^verbatim>\<open>String\<close> method: \<^verbatim>\<open>%v\<close> prints the struct as its
  fields between braces, separated by one space.
\<close>

definition fmt_DiffKey :: "DiffKey \<Rightarrow> string" where
  "fmt_DiffKey k =
     ''{'' @ DiffKey_Name k @ '' '' @ DiffKey_Chart k @ '' '' @ DiffKey_Flags k @ ''}''"

record Release =
  Release_Name :: string
  Release_Flags :: "string list"

text \<open>
  A \<^verbatim>\<open>*sync.Mutex\<close> field is \<open>None\<close> when it is nil. One call at a time runs in
  this embedding, every method unlocks what it locked, and so a mutex has no state here.
\<close>

datatype Mutex = Mutex

text \<open>
  Modelled from the spec: the package github.com/Masterminds/semver/v3 is not part of
  the sources. A version is its major, minor and patch numbers (unsigned 64-bit), and
  the spec orders versions by "standard major.minor.patch ordering".
\<close>

datatype semver_Version = semver_Version (Major: "64 word") (Minor: "64 word") (Patch: "64 word")

text \<open>The result type of \<^verbatim>\<open>GetVersion\<close>, \<^verbatim>\<open>helmexec.Version\<close>, has three \<^verbatim>\<open>int\<close> fields.\<close>

record helmexec_Version =
  Version_Major :: int
  Version_Minor :: int
  Version_Patch :: int

text \<open>Of \<^verbatim>\<open>chart.Metadata\<close> the double sets the field \<^verbatim>\<open>Version\<close> only.\<close>

record chart_Metadata =
  Metadata_Version :: string

text \<open>
  The struct \<^verbatim>\<open>Helm\<close>. A slice is a list (nil is the empty list). The maps
  \<^verbatim>\<open>Lists\<close> and \<^verbatim>\<open>Diffs\<close> are partial functions, and a nil map is \<open>None\<close>.
  A callback of \<^verbatim>\<open>UpdateDepsCallbacks\<close> is the function from the chart to the error
  it returns.
\<close>

record Helm =
  Charts :: "string list"
  Repo :: "string list"
  Releases :: "Release list"
  Deleted :: "Release list"
  Linted :: "Release list"
  Templated :: "Release list"
  Lists :: "(ListKey \<rightharpoonup> string) option"
  Diffs :: "(DiffKey \<rightharpoonup> error option) option"
  Diffed :: "Release list"
  FailOnUnexpectedDiff :: bool
  FailOnUnexpectedList :: bool
  Version :: "semver_Version option"
  UpdateDepsCallbacks :: "(string \<rightharpoonup> (string \<Rightarrow> error option)) option"
  DiffMutex :: "Mutex option"
  ChartsMutex :: "Mutex option"
  ReleasesMutex :: "Mutex option"
  Helm3 :: bool

text \<open>The zero value \<^verbatim>\<open>Helm{}\<close>.\<close>

definition Helm_zero :: Helm where
  "Helm_zero =
     \<lparr>Charts = [], Repo = [], Releases = [], Deleted = [], Linted = [], Templated = [],
      Lists = None, Diffs = None, Diffed = [], FailOnUnexpectedDiff = False,
      FailOnUnexpectedList = False, Version = None, UpdateDepsCallbacks = None,
      DiffMutex = None, ChartsMutex = None, ReleasesMutex = None, Helm3 = False\<rparr>"

subsection \<open>The methods\<close>

definition UpdateDeps :: "Helm \<Rightarrow> string \<Rightarrow> error option \<times> Helm" where
  "UpdateDeps helm chart =
     (if strings_Contains chart ''error''
      then (Some (Error (''simulated UpdateDeps failure for chart: '' @ chart)), helm)
      else
        let helm' = helm\<lparr>Charts := Charts helm @ [chart]\<rparr> in
        (case UpdateDepsCallbacks helm' of
           None \<Rightarrow> (None, helm')
         | Some callbacks \<Rightarrow>
             (case callbacks chart of
                None \<Rightarrow> (None, helm')
              | Some callback \<Rightarrow>
                  (case callback chart of
                     Some err \<Rightarrow> (Some err, helm')
                   | None \<Rightarrow> (None, helm')))))"

definition BuildDeps :: "Helm \<Rightarrow> string \<Rightarrow> string \<Rightarrow> string list \<Rightarrow> error option \<times> Helm" where
  "BuildDeps helm name chart flags =
     (if strings_Contains chart ''error''
      then (Some (Error ''error''), helm)
      else (None, helm\<lparr>Charts := Charts helm @ [chart]\<rparr>))"

definition SetExtraArgs :: "Helm \<Rightarrow> string list \<Rightarrow> Helm" where
  "SetExtraArgs helm args = helm"

definition SetHelmBinary :: "Helm \<Rightarrow> string \<Rightarrow> Helm" where
  "SetHelmBinary helm bin = helm"

definition SetEnableLiveOutput :: "Helm \<Rightarrow> bool \<Rightarrow> Helm" where
  "SetEnableLiveOutput helm enableLiveOutput = helm"

definition SetDisableForceUpdate :: "Helm \<Rightarrow> bool \<Rightarrow> Helm" where
  "SetDisableForceUpdate helm forceUpdate = helm"

definition AddRepo ::
  "Helm \<Rightarrow> string \<Rightarrow> string \<Rightarrow> string \<Rightarrow> string \<Rightarrow> string \<Rightarrow> string \<Rightarrow> string \<Rightarrow> string \<Rightarrow>
   bool \<Rightarrow> bool \<Rightarrow> error option \<times> Helm" where
  "AddRepo helm name repository cafile certfile keyfile username password managed
     passCredentials skipTLSVerify =
     (None, helm\<lparr>Repo := [name, repository, cafile, certfile, keyfile, username, password,
                            managed, fmt_bool passCredentials, fmt_bool skipTLSVerify]\<rparr>)"

definition UpdateRepo :: "Helm \<Rightarrow> error option \<times> Helm" where
  "UpdateRepo helm = (None, helm)"

definition RegistryLogin ::
  "Helm \<Rightarrow> string \<Rightarrow> string \<Rightarrow> string \<Rightarrow> string \<Rightarrow> string \<Rightarrow> string \<Rightarrow> bool \<Rightarrow>
   error option \<times> Helm" where
  "RegistryLogin helm name username password caFile certFile keyFile skipTLSVerify =
     (None, helm)"

text \<open>
  The helper \<^verbatim>\<open>sync\<close>: lock \<^verbatim>\<open>m\<close> when it is not nil, run \<^verbatim>\<open>f\<close>, unlock.
\<close>

definition sync :: "Mutex option \<Rightarrow> (Helm \<Rightarrow> Helm) \<Rightarrow> Helm \<Rightarrow> Helm" where
  "sync m f helm = (case m of None \<Rightarrow> f helm | Some mu \<Rightarrow> f helm)"

definition SyncRelease ::
  "Helm \<Rightarrow> 'c \<Rightarrow> string \<Rightarrow> string \<Rightarrow> string list \<Rightarrow> error option \<times> Helm" where
  "SyncRelease helm context name chart flags =
     (if strings_Contains name ''error''
      then (Some (Error ''error''), helm)
      else
        let helm1 = sync (ReleasesMutex helm)
              (\<lambda>h. h\<lparr>Releases := Releases h @ [\<lparr>Release_Name = name, Release_Flags = flags\<rparr>]\<rparr>)
              helm;
            helm2 = sync (ChartsMutex helm1) (\<lambda>h. h\<lparr>Charts := Charts h @ [chart]\<rparr>) helm1
        in (None, helm2))"

definition DiffRelease ::
  "Helm \<Rightarrow> 'c \<Rightarrow> string \<Rightarrow> string \<Rightarrow> bool \<Rightarrow> string list \<Rightarrow> error option \<times> Helm" where
  "DiffRelease helm context name chart suppressDiff flags =
     (let helm' = helm\<lparr>Diffed := Diffed helm @ [\<lparr>Release_Name = name, Release_Flags = flags\<rparr>]\<rparr>
      in case Diffs helm' of
           None \<Rightarrow> (None, helm')
         | Some diffs \<Rightarrow>
             let key = \<lparr>DiffKey_Name = name, DiffKey_Chart = chart,
                        DiffKey_Flags = strings_Join flags ''''\<rparr>;
                 err = (case diffs key of None \<Rightarrow> None | Some e \<Rightarrow> e);
                 ok = (diffs key \<noteq> None)
             in if \<not> ok \<and> FailOnUnexpectedDiff helm'
                then (Some (Error (''unexpected diff with key: '' @ fmt_DiffKey key)), helm')
                else (err, helm'))"

definition ReleaseStatus :: "Helm \<Rightarrow> 'c \<Rightarrow> string \<Rightarrow> string list \<Rightarrow> error option \<times> Helm" where
  "ReleaseStatus helm context release flags =
     (if strings_Contains release ''error''
      then (Some (Error ''error''), helm)
      else (None, helm\<lparr>Releases := Releases helm @
                          [\<lparr>Release_Name = release, Release_Flags = flags\<rparr>]\<rparr>))"

definition DeleteRelease :: "Helm \<Rightarrow> 'c \<Rightarrow> string \<Rightarrow> string list \<Rightarrow> error option \<times> Helm" where
  "DeleteRelease helm context name flags =
     (if strings_Contains name ''error''
      then (Some (Error ''error''), helm)
      else (None, helm\<lparr>Deleted := Deleted helm @
                          [\<lparr>Release_Name = name, Release_Flags = flags\<rparr>]\<rparr>))"

text \<open>
  \<^verbatim>\<open>List\<close> writes to no field: it returns its two results only. On a strict miss it
  ranges over the map \<^verbatim>\<open>Lists\<close> to print the keys. Go chooses the order of a range
  over a map anew each time, so the order is not a matter of the struct: it is an
  argument of the call, \<open>range_keys\<close>, the keys as this call's loop visits them.
  \<open>range_order m ks\<close> says that \<open>ks\<close> is such an order for the map \<open>m\<close>: every
  key of \<open>m\<close>, once.
\<close>

definition range_order :: "('k \<rightharpoonup> 'v) \<Rightarrow> 'k list \<Rightarrow> bool" where
  "range_order m ks = (distinct ks \<and> set ks = dom m)"

definition List ::
  "Helm \<Rightarrow> 'c \<Rightarrow> string \<Rightarrow> string list \<Rightarrow> ListKey list \<Rightarrow> string \<times> error option" where
  "List helm context filter' flags range_keys =
     (let key = \<lparr>ListKey_Filter = filter', ListKey_Flags = strings_Join flags ''''\<rparr>
      in case Lists helm of
           None \<Rightarrow> (''dummy non-empty helm-list output'', None)
         | Some lists' \<Rightarrow>
             let res = (case lists' key of None \<Rightarrow> '''' | Some r \<Rightarrow> r);
                 ok = (lists' key \<noteq> None)
             in if \<not> ok \<and> FailOnUnexpectedList helm
                then
                  let keys = map ListKey_String range_keys
                  in ('''', Some (Error (''unexpected list key: '' @ ListKey_String key @
                                         '' not found in '' @ strings_Join keys '', '')))
                else (res, None))"

definition DecryptSecret :: "Helm \<Rightarrow> 'c \<Rightarrow> string \<Rightarrow> string list \<Rightarrow> string \<times> error option" where
  "DecryptSecret helm context name flags = ('''', None)"

definition TestRelease :: "Helm \<Rightarrow> 'c \<Rightarrow> string \<Rightarrow> string list \<Rightarrow> error option \<times> Helm" where
  "TestRelease helm context name flags =
     (if strings_Contains name ''error''
      then (Some (Error ''error''), helm)
      else (None, helm\<lparr>Releases := Releases helm @
                          [\<lparr>Release_Name = name, Release_Flags = flags\<rparr>]\<rparr>))"

definition Fetch :: "Helm \<Rightarrow> string \<Rightarrow> string list \<Rightarrow> error option \<times> Helm" where
  "Fetch helm chart flags = (None, helm)"

definition Lint :: "Helm \<Rightarrow> string \<Rightarrow> string \<Rightarrow> string list \<Rightarrow> error option \<times> Helm" where
  "Lint helm name chart flags =
     (if strings_Contains name ''error''
      then (Some (Error ''error''), helm)
      else (None, helm\<lparr>Linted := Linted helm @
                          [\<lparr>Release_Name = name, Release_Flags = flags\<rparr>]\<rparr>))"

definition TemplateRelease ::
  "Helm \<Rightarrow> string \<Rightarrow> string \<Rightarrow> string list \<Rightarrow> error option \<times> Helm" where
  "TemplateRelease helm name chart flags =
     (if strings_Contains name ''error''
      then (Some (Error ''error''), helm)
      else (None, helm\<lparr>Templated := Templated helm @
                          [\<lparr>Release_Name = name, Release_Flags = flags\<rparr>]\<rparr>))"

definition ChartPull :: "Helm \<Rightarrow> string \<Rightarrow> string \<Rightarrow> string list \<Rightarrow> error option \<times> Helm" where
  "ChartPull helm chart path flags = (None, helm)"

definition ChartExport :: "Helm \<Rightarrow> string \<Rightarrow> string \<Rightarrow> error option \<times> Helm" where
  "ChartExport helm chart path = (None, helm)"

definition IsHelm3 :: "Helm \<Rightarrow> bool" where
  "IsHelm3 helm = (case Version helm of None \<Rightarrow> Helm3 helm | Some v \<Rightarrow> Major v = 3)"

text \<open>
  \<^verbatim>\<open>GetVersion\<close> calls \<^verbatim>\<open>helm.Version.Major()\<close> with no test of the pointer:
  when \<^verbatim>\<open>Version\<close> is nil the call dereferences nil and panics. The conversion
  \<^verbatim>\<open>int(x)\<close> of an unsigned 64-bit number reads the same bits as signed.
\<close>

definition GetVersion :: "Helm \<Rightarrow> panic + helmexec_Version" where
  "GetVersion helm =
     (case Version helm of
        None \<Rightarrow> Inl NilPointerDereference
      | Some v \<Rightarrow> Inr \<lparr>Version_Major = sint (Major v), Version_Minor = sint (Minor v),
                       Version_Patch = sint (Patch v)\<rparr>)"

definition ShowChart :: "Helm \<Rightarrow> string \<Rightarrow> chart_Metadata \<times> error option" where
  "ShowChart helm chartPath =
     (if chartPath = ''../../foo-bar'' then (\<lparr>Metadata_Version = ''3.2.0''\<rparr>, None)
      else (\<lparr>Metadata_Version = ''''\<rparr>, Some (Error ''fake test error'')))"

subsection \<open>Versions\<close>

text \<open>
  Modelled from the spec: \<^verbatim>\<open>semver.MustParse\<close>, \<^verbatim>\<open>Equal\<close> and \<^verbatim>\<open>GreaterThan\<close>
  belong to the package semver, which is not part of the sources. A version string is
  well-formed here when it is three decimal numbers below \<open>2 ^ 64\<close> separated by dots,
  \<^verbatim>\<open>MustParse\<close> panics on every other string, and versions compare by their major
  number, then their minor number, then their patch number.
\<close>

definition is_digit :: "char \<Rightarrow> bool" where
  "is_digit c = (c \<in> set ''0123456789'')"

definition digit_val :: "char \<Rightarrow> nat" where
  "digit_val c = of_char c - 48"

fun parse_digits :: "string \<Rightarrow> nat \<Rightarrow> nat option" where
  "parse_digits [] acc = Some acc"
| "parse_digits (c # cs) acc =
     (if is_digit c then parse_digits cs (10 * acc + digit_val c) else None)"

definition strconv_ParseUint :: "string \<Rightarrow> 64 word option" where
  "strconv_ParseUint s =
     (if s = [] then None
      else case parse_digits s 0 of
             None \<Rightarrow> None
           | Some n \<Rightarrow> if n < 2 ^ 64 then Some (word_of_nat n) else None)"

fun split_dots :: "string \<Rightarrow> string list" where
  "split_dots [] = [[]]"
| "split_dots (c # cs) =
     (if c = CHR ''.'' then [] # split_dots cs
      else case split_dots cs of
             [] \<Rightarrow> [[c]]
           | p # ps \<Rightarrow> (c # p) # ps)"

definition semver_NewVersion :: "string \<Rightarrow> semver_Version option" where
  "semver_NewVersion s =
     (case split_dots s of
        [a, b, c] \<Rightarrow>
          (case (strconv_ParseUint a, strconv_ParseUint b, strconv_ParseUint c) of
             (Some x, Some y, Some z) \<Rightarrow> Some (semver_Version x y z)
           | _ \<Rightarrow> None)
      | _ \<Rightarrow> None)"

definition semver_MustParse :: "string \<Rightarrow> panic + semver_Version" where
  "semver_MustParse s =
     (case semver_NewVersion s of None \<Rightarrow> Inl (MustParsePanic s) | Some v \<Rightarrow> Inr v)"

definition compareSegment :: "64 word \<Rightarrow> 64 word \<Rightarrow> int" where
  "compareSegment a b = (if a < b then - 1 else if b < a then 1 else 0)"

definition semver_Compare :: "semver_Version \<Rightarrow> semver_Version \<Rightarrow> int" where
  "semver_Compare v w =
     (if compareSegment (Major v) (Major w) \<noteq> 0 then compareSegment (Major v) (Major w)
      else if compareSegment (Minor v) (Minor w) \<noteq> 0 then compareSegment (Minor v) (Minor w)
      else compareSegment (Patch v) (Patch w))"

definition semver_Equal :: "semver_Version \<Rightarrow> semver_Version \<Rightarrow> bool" where
  "semver_Equal v w = (semver_Compare v w = 0)"

definition semver_GreaterThan :: "semver_Version \<Rightarrow> semver_Version \<Rightarrow> bool" where
  "semver_GreaterThan v w = (0 < semver_Compare v w)"

text \<open>
  \<^verbatim>\<open>IsVersionAtLeast\<close> answers false for a nil \<^verbatim>\<open>Version\<close> before it parses
  its argument.
\<close>

definition IsVersionAtLeast :: "Helm \<Rightarrow> string \<Rightarrow> panic + bool" where
  "IsVersionAtLeast helm versionStr =
     (case Version helm of
        None \<Rightarrow> Inr False
      | Some v \<Rightarrow>
          (case semver_MustParse versionStr of
             Inl p \<Rightarrow> Inl p
           | Inr ver \<Rightarrow> Inr (semver_Equal v ver \<or> semver_GreaterThan v ver)))"

text \<open>
  The order of the spec, in its words: a version is at least another when it is
  "equal to or greater than" it "under standard major.minor.patch ordering".
\<close>

definition spec_at_least :: "semver_Version \<Rightarrow> semver_Version \<Rightarrow> bool" where
  "spec_at_least v x =
     (Major x < Major v \<or>
      (Major x = Major v \<and> (Minor x < Minor v \<or> (Minor x = Minor v \<and> Patch x \<le> Patch v))))"

subsection \<open>Sequences of calls\<close>

text \<open>
  A test calls the methods of one double one after another. A call is the method with
  its arguments; \<open>apply_call\<close> is the struct after the call (a call that panics has
  written nothing before), and \<open>run\<close> is the struct after a sequence of calls.
\<close>

datatype 'c call =
    Call_UpdateDeps string
  | Call_BuildDeps string string "string list"
  | Call_SetExtraArgs "string list"
  | Call_SetHelmBinary string
  | Call_SetEnableLiveOutput bool
  | Call_SetDisableForceUpdate bool
  | Call_AddRepo string string string string string string string string bool bool
  | Call_UpdateRepo
  | Call_RegistryLogin string string string string string string bool
  | Call_SyncRelease 'c string string "string list"
  | Call_DiffRelease 'c string string bool "string list"
  | Call_ReleaseStatus 'c string "string list"
  | Call_DeleteRelease 'c string "string list"
  | Call_List 'c string "string list"
  | Call_DecryptSecret 'c string "string list"
  | Call_TestRelease 'c string "string list"
  | Call_Fetch string "string list"
  | Call_Lint string string "string list"
  | Call_TemplateRelease string string "string list"
  | Call_ChartPull string string "string list"
  | Call_ChartExport string string
  | Call_IsHelm3
  | Call_GetVersion
  | Call_IsVersionAtLeast string
  | Call_ShowChart string

fun apply_call :: "Helm \<Rightarrow> 'c call \<Rightarrow> Helm" where
  "apply_call helm (Call_UpdateDeps chart) = snd (UpdateDeps helm chart)"
| "apply_call helm (Call_BuildDeps name chart flags) = snd (BuildDeps helm name chart flags)"
| "apply_call helm (Call_SetExtraArgs args) = SetExtraArgs helm args"
| "apply_call helm (Call_SetHelmBinary bin) = SetHelmBinary helm bin"
| "apply_call helm (Call_SetEnableLiveOutput b) = SetEnableLiveOutput helm b"
| "apply_call helm (Call_SetDisableForceUpdate b) = SetDisableForceUpdate helm b"
| "apply_call helm (Call_AddRepo name repository cafile certfile keyfile username password
       managed passCredentials skipTLSVerify) =
     snd (AddRepo helm name repository cafile certfile keyfile username password managed
            passCredentials skipTLSVerify)"
| "apply_call helm Call_UpdateRepo = snd (UpdateRepo helm)"
| "apply_call helm (Call_RegistryLogin name username password caFile certFile keyFile
       skipTLSVerify) =
     snd (RegistryLogin helm name username password caFile certFile keyFile skipTLSVerify)"
| "apply_call helm (Call_SyncRelease context name chart flags) =
     snd (SyncRelease helm context name chart flags)"
| "apply_call helm (Call_DiffRelease context name chart suppressDiff flags) =
     snd (DiffRelease helm context name chart suppressDiff flags)"
| "apply_call helm (Call_ReleaseStatus context release flags) =
     snd (ReleaseStatus helm context release flags)"
| "apply_call helm (Call_DeleteRelease context name flags) =
     snd (DeleteRelease helm context name flags)"
| "apply_call helm (Call_List context filter' flags) = helm"
| "apply_call helm (Call_DecryptSecret context name flags) = helm"
| "apply_call helm (Call_TestRelease context name flags) =
     snd (TestRelease helm context name flags)"
| "apply_call helm (Call_Fetch chart flags) = snd (Fetch helm chart flags)"
| "apply_call helm (Call_Lint name chart flags) = snd (Lint helm name chart flags)"
| "apply_call helm (Call_TemplateRelease name chart flags) =
     snd (TemplateRelease helm name chart flags)"
| "apply_call helm (Call_ChartPull chart path flags) = snd (ChartPull helm chart path flags)"
| "apply_call helm (Call_ChartExport chart path) = snd (ChartExport helm chart path)"
| "apply_call helm Call_IsHelm3 = helm"
| "apply_call helm Call_GetVersion = helm"
| "apply_call helm (Call_IsVersionAtLeast versionStr) = helm"
| "apply_call helm (Call_ShowChart chartPath) = helm"

fun run :: "Helm \<Rightarrow> 'c call list \<Rightarrow> Helm" where
  "run helm [] = helm"
| "run helm (c # cs) = run (apply_call helm c) cs"

subsection \<open>Growing lists\<close>

text \<open>
  \<open>append_only helm helm'\<close>: each of the six lists of recorded calls of \<open>helm\<close> is
  a prefix of the same list of \<open>helm'\<close>, and the two expectation maps are the same.
\<close>

definition append_only :: "Helm \<Rightarrow> Helm \<Rightarrow> bool" where
  "append_only helm helm' =
     (prefix (Charts helm) (Charts helm') \<and> prefix (Releases helm) (Releases helm') \<and>
      prefix (Deleted helm) (Deleted helm') \<and> prefix (Linted helm) (Linted helm') \<and>
      prefix (Templated helm) (Templated helm') \<and> prefix (Diffed helm) (Diffed helm') \<and>
      Lists helm' = Lists helm \<and> Diffs helm' = Diffs helm)"

subsection \<open>Concurrent calls\<close>

text \<open>
  Several goroutines may call the methods of one double at the same time. For the
  methods that append to \<^verbatim>\<open>Releases\<close>, \<^verbatim>\<open>Charts\<close> and \<^verbatim>\<open>Diffed\<close>, a call is
  the sequence of its steps on the shared struct; steps of different calls interleave.
  The statement \<^verbatim>\<open>helm.Diffed = append(helm.Diffed, r)\<close> is two steps: it reads the
  slice, and it writes the slice with \<^verbatim>\<open>r\<close> added to what it read.
  \<^verbatim>\<open>Lock\<close> is a step that cannot be taken while the mutex is held, and
  \<^verbatim>\<open>Unlock\<close> of a mutex that is not held is a run-time error.
\<close>

datatype mutex_name = M_Releases | M_Charts | M_Diff

datatype action =
    Lock mutex_name
  | Unlock mutex_name
  | Load_Releases
  | Store_Releases Release
  | Load_Charts
  | Store_Charts string
  | Load_Diffed
  | Store_Diffed Release

text \<open>
  A goroutine: the steps it has still to take, and the slices it read last. A
  configuration: the struct, the goroutine that holds each mutex, and the goroutines.
\<close>

record thread =
  todo :: "action list"
  loaded :: "Release list"
  loaded_charts :: "string list"

record config =
  memory :: Helm
  holder :: "mutex_name \<Rightarrow> nat option"
  threads :: "thread list"

text \<open>
  Goroutine \<open>i\<close>, in state \<open>t\<close>, takes the step \<open>a\<close> and has \<open>rest\<close> left;
  \<open>None\<close> when it cannot.
\<close>

definition perform :: "config \<Rightarrow> nat \<Rightarrow> thread \<Rightarrow> action \<Rightarrow> action list \<Rightarrow> config option" where
  "perform cfg i t a rest =
     (case a of
        Lock m \<Rightarrow>
          if holder cfg m = None
          then Some (cfg\<lparr>holder := (holder cfg)(m := Some i),
                         threads := (threads cfg)[i := t\<lparr>todo := rest\<rparr>]\<rparr>)
          else None
      | Unlock m \<Rightarrow>
          if holder cfg m = None then None
          else Some (cfg\<lparr>holder := (holder cfg)(m := None),
                          threads := (threads cfg)[i := t\<lparr>todo := rest\<rparr>]\<rparr>)
      | Load_Releases \<Rightarrow>
          Some (cfg\<lparr>threads := (threads cfg)
                        [i := t\<lparr>todo := rest, loaded := Releases (memory cfg)\<rparr>]\<rparr>)
      | Store_Releases r \<Rightarrow>
          Some (cfg\<lparr>memory := (memory cfg)\<lparr>Releases := loaded t @ [r]\<rparr>,
                     threads := (threads cfg)[i := t\<lparr>todo := rest\<rparr>]\<rparr>)
      | Load_Charts \<Rightarrow>
          Some (cfg\<lparr>threads := (threads cfg)
                        [i := t\<lparr>todo := rest, loaded_charts := Charts (memory cfg)\<rparr>]\<rparr>)
      | Store_Charts c \<Rightarrow>
          Some (cfg\<lparr>memory := (memory cfg)\<lparr>Charts := loaded_charts t @ [c]\<rparr>,
                     threads := (threads cfg)[i := t\<lparr>todo := rest\<rparr>]\<rparr>)
      | Load_Diffed \<Rightarrow>
          Some (cfg\<lparr>threads := (threads cfg)
                        [i := t\<lparr>todo := rest, loaded := Diffed (memory cfg)\<rparr>]\<rparr>)
      | Store_Diffed r \<Rightarrow>
          Some (cfg\<lparr>memory := (memory cfg)\<lparr>Diffed := loaded t @ [r]\<rparr>,
                     threads := (threads cfg)[i := t\<lparr>todo := rest\<rparr>]\<rparr>))"

definition step_thread :: "config \<Rightarrow> nat \<Rightarrow> config option" where
  "step_thread cfg i =
     (if i < length (threads cfg)
      then (case todo (threads cfg ! i) of
              [] \<Rightarrow> None
            | a # rest \<Rightarrow> perform cfg i (threads cfg ! i) a rest)
      else None)"

text \<open>
  An interleaving is the list of the goroutines that take the next step, in order. It is
  \<open>None\<close> when one of them cannot take its step.
\<close>

fun run_schedule :: "config \<Rightarrow> nat list \<Rightarrow> config option" where
  "run_schedule cfg [] = Some cfg"
| "run_schedule cfg (i # sched) =
     (case step_thread cfg i of None \<Rightarrow> None | Some cfg' \<Rightarrow> run_schedule cfg' sched)"

definition finished :: "config \<Rightarrow> bool" where
  "finished cfg = list_all (\<lambda>t. todo t = []) (threads cfg)"

text \<open>One goroutine for each of the calls \<open>progs\<close>, on the struct \<open>helm\<close>, no mutex held.\<close>

definition spawn :: "Helm \<Rightarrow> action list list \<Rightarrow> config" where
  "spawn helm progs =
     \<lparr>memory = helm, holder = (\<lambda>m. None),
      threads = map (\<lambda>p. \<lparr>todo = p, loaded = [], loaded_charts = []\<rparr>) progs\<rparr>"

text \<open>
  The steps of \<^verbatim>\<open>sync\<close>, \<^verbatim>\<open>SyncRelease\<close>, \<^verbatim>\<open>DiffRelease\<close> and
  \<^verbatim>\<open>ReleaseStatus\<close>. What \<^verbatim>\<open>DiffRelease\<close> does after it has unlocked reads fields
  that no method writes, and is no step here. \<^verbatim>\<open>ReleaseStatus\<close> takes no mutex.
\<close>

definition sync_steps :: "Mutex option \<Rightarrow> mutex_name \<Rightarrow> action list \<Rightarrow> action list" where
  "sync_steps m n f = (case m of None \<Rightarrow> f | Some mu \<Rightarrow> [Lock n] @ f @ [Unlock n])"

definition SyncRelease_steps :: "Helm \<Rightarrow> string \<Rightarrow> string \<Rightarrow> string list \<Rightarrow> action list" where
  "SyncRelease_steps helm name chart flags =
     (if strings_Contains name ''error'' then []
      else sync_steps (ReleasesMutex helm) M_Releases
             [Load_Releases, Store_Releases \<lparr>Release_Name = name, Release_Flags = flags\<rparr>] @
           sync_steps (ChartsMutex helm) M_Charts [Load_Charts, Store_Charts chart])"

definition DiffRelease_steps :: "Helm \<Rightarrow> string \<Rightarrow> string list \<Rightarrow> action list" where
  "DiffRelease_steps helm name flags =
     (if DiffMutex helm \<noteq> None then [Lock M_Diff] else []) @
     [Load_Diffed, Store_Diffed \<lparr>Release_Name = name, Release_Flags = flags\<rparr>] @
     (if DiffMutex helm \<noteq> None then [Unlock M_Diff] else [])"

definition ReleaseStatus_steps :: "string \<Rightarrow> string list \<Rightarrow> action list" where
  "ReleaseStatus_steps release flags =
     (if strings_Contains release ''error'' then []
      else [Load_Releases, Store_Releases \<lparr>Release_Name = release, Release_Flags = flags\<rparr>])"

text \<open>
  The invariant of concurrent \<^verbatim>\<open>DiffRelease\<close> calls under \<^verbatim>\<open>DiffMutex\<close>. A
  goroutine is before its \<^verbatim>\<open>Lock\<close> or after its \<^verbatim>\<open>Unlock\<close> and does not hold the
  mutex, or it is in between and holds it; when it has read \<^verbatim>\<open>Diffed\<close> and not yet
  written it, what it read is still what \<^verbatim>\<open>Diffed\<close> holds. The length of
  \<^verbatim>\<open>Diffed\<close> and the number of writes still to come add up to \<open>n_total\<close>.
\<close>

fun is_Store_Diffed :: "action \<Rightarrow> bool" where
  "is_Store_Diffed (Store_Diffed r) = True"
| "is_Store_Diffed a = False"

definition stores_left :: "thread list \<Rightarrow> nat" where
  "stores_left ts = sum_list (map (\<lambda>t. length (filter is_Store_Diffed (todo t))) ts)"

definition diff_phase :: "bool \<Rightarrow> Release list \<Rightarrow> thread \<Rightarrow> bool" where
  "diff_phase mine d t =
     ((\<exists>r. todo t = [Lock M_Diff, Load_Diffed, Store_Diffed r, Unlock M_Diff] \<and> \<not> mine) \<or>
      (\<exists>r. todo t = [Load_Diffed, Store_Diffed r, Unlock M_Diff] \<and> mine) \<or>
      (\<exists>r. todo t = [Store_Diffed r, Unlock M_Diff] \<and> mine \<and> loaded t = d) \<or>
      (todo t = [Unlock M_Diff] \<and> mine) \<or>
      (todo t = [] \<and> \<not> mine))"

definition diff_inv :: "nat \<Rightarrow> config \<Rightarrow> bool" where
  "diff_inv n_total cfg =
     ((\<forall>i < length (threads cfg).
         diff_phase (holder cfg M_Diff = Some i) (Diffed (memory cfg)) (threads cfg ! i)) \<and>
      length (Diffed (memory cfg)) + stores_left (threads cfg) = n_total)"

subsection \<open>Example configurations\<close>

text \<open>
  A double with two diff expectations: no differences for \<^verbatim>\<open>app\<close>, an error for
  \<^verbatim>\<open>db\<close>.
\<close>

definition Helm_diffs :: "bool \<Rightarrow> Helm" where
  "Helm_diffs strict =
     Helm_zero\<lparr>Diffs := Some [\<lparr>DiffKey_Name = ''app'', DiffKey_Chart = ''chart-x'',
                                 DiffKey_Flags = ''--flag''\<rparr> \<mapsto> None,
                               \<lparr>DiffKey_Name = ''db'', DiffKey_Chart = ''chart-y'',
                                 DiffKey_Flags = ''''\<rparr> \<mapsto> Some (Error ''exit status 2'')],
                FailOnUnexpectedDiff := strict\<rparr>"

text \<open>A double with two list expectations, and one whose expectations are keyed by
  the joined flags \<^verbatim>\<open>ab\<close>.\<close>

definition key_app :: ListKey where
  "key_app = \<lparr>ListKey_Filter = ''^app$'', ListKey_Flags = ''--kube-contextdefault''\<rparr>"

definition key_db :: ListKey where
  "key_db = \<lparr>ListKey_Filter = ''^db$'', ListKey_Flags = ''''\<rparr>"

definition lists_example :: "ListKey \<rightharpoonup> string" where
  "lists_example = [key_app \<mapsto> ''NAME REVISION'', key_db \<mapsto> '''']"

definition Helm_lists :: "bool \<Rightarrow> Helm" where
  "Helm_lists strict =
     Helm_zero\<lparr>Lists := Some lists_example, FailOnUnexpectedList := strict\<rparr>"

definition key_joined :: ListKey where
  "key_joined = \<lparr>ListKey_Filter = ''^app$'', ListKey_Flags = ''ab''\<rparr>"

definition Helm_joined :: Helm where
  "Helm_joined =
     Helm_zero\<lparr>Lists := Some [key_joined \<mapsto> ''NAME''],
                Diffs := Some [\<lparr>DiffKey_Name = ''app'', DiffKey_Chart = ''chart-x'',
                                 DiffKey_Flags = ''ab''\<rparr> \<mapsto> Some (Error ''exit status 2'')],
                FailOnUnexpectedDiff := True, FailOnUnexpectedList := True\<rparr>"

text \<open>A double whose \<^verbatim>\<open>Version\<close> is set, a double with records on it already, and
  a sequence of calls.\<close>

definition Helm_version :: "nat \<Rightarrow> nat \<Rightarrow> nat \<Rightarrow> Helm" where
  "Helm_version major minor patch =
     Helm_zero\<lparr>Version := Some (semver_Version (word_of_nat major) (word_of_nat minor)
                                   (word_of_nat patch))\<rparr>"

definition calls_example :: "unit call list" where
  "calls_example =
     [Call_UpdateDeps ''ok-chart'', Call_UpdateDeps ''broken-error-chart'',
      Call_SyncRelease () ''app'' ''chart-x'' [''--wait''],
      Call_DiffRelease () ''app'' ''chart-x'' False [''--flag''],
      Call_DeleteRelease () ''old'' [],
      Call_AddRepo ''stable'' ''https://example.com/stable'' '''' '''' '''' '''' '''' '''' False False]"

definition Helm_recorded :: Helm where
  "Helm_recorded =
     Helm_zero\<lparr>Charts := [''base''], Releases := [\<lparr>Release_Name = ''first'', Release_Flags = []\<rparr>]\<rparr>"

text \<open>A double with the three mutexes set, and the end of two diffs on it.\<close>

definition Helm_locked :: Helm where
  "Helm_locked =
     Helm_zero\<lparr>DiffMutex := Some Mutex, ChartsMutex := Some Mutex, ReleasesMutex := Some Mutex\<rparr>"

definition diffs_final :: config where
  "diffs_final =
     \<lparr>memory = Helm_locked\<lparr>Diffed := [\<lparr>Release_Name = ''db'', Release_Flags = []\<rparr>,
                                      \<lparr>Release_Name = ''app'', Release_Flags = [''--flag'']\<rparr>]\<rparr>,
      holder = (\<lambda>m. None),
      threads = [\<lparr>todo = [], loaded = [\<lparr>Release_Name = ''db'', Release_Flags = []\<rparr>],
                   loaded_charts = []\<rparr>,
                 \<lparr>todo = [], loaded = [], loaded_charts = []\<rparr>]\<rparr>"

section \<open>Properties\<close>

subsection \<open>Substrings and joins\<close>

text \<open>
  \<open>strings_Contains s substr\<close> holds exactly when \<open>substr\<close> occurs in \<open>s\<close>, and a
  joined list contains each of its elements.
\<close>

lemma strings_HasPrefix_iff: "strings_HasPrefix s p \<longleftrightarrow> (\<exists>ss. s = p @ ss)"
  by (induction s p rule: strings_HasPrefix.induct) auto

lemma strings_Contains_iff: "strings_Contains s sub \<longleftrightarrow> (\<exists>ps ss. s = ps @ sub @ ss)"
proof (induction s)
  case Nil
  then show ?case by auto
next
  case (Cons c cs)
  show ?case
  proof
    assume "strings_Contains (c # cs) sub"
    then consider "strings_HasPrefix (c # cs) sub" | "strings_Contains cs sub" by auto
    then show "\<exists>ps ss. c # cs = ps @ sub @ ss"
    proof cases
      case 1
      then obtain ss where "c # cs = sub @ ss" by (auto simp: strings_HasPrefix_iff)
      then have "c # cs = [] @ sub @ ss" by simp
      then show ?thesis by blast
    next
      case 2
      then obtain ps ss where "cs = ps @ sub @ ss" using Cons.IH by auto
      then have "c # cs = (c # ps) @ sub @ ss" by simp
      then show ?thesis by blast
    qed
  next
    assume "\<exists>ps ss. c # cs = ps @ sub @ ss"
    then obtain ps ss where eq: "c # cs = ps @ sub @ ss" by blast
    show "strings_Contains (c # cs) sub"
    proof (cases ps)
      case Nil
      with eq have "strings_HasPrefix (c # cs) sub" by (auto simp: strings_HasPrefix_iff)
      then show ?thesis by simp
    next
      case (Cons p ps')
      with eq have "cs = ps' @ sub @ ss" by simp
      then have "strings_Contains cs sub" using Cons.IH by blast
      then show ?thesis by simp
    qed
  qed
qed

lemma strings_Contains_middle: "strings_Contains (ps @ sub @ ss) sub"
  by (auto simp: strings_Contains_iff)

lemma strings_Contains_trans:
  "strings_Contains s t \<Longrightarrow> strings_Contains (ps @ s @ ss) t"
proof -
  assume "strings_Contains s t"
  then obtain a b where "s = a @ t @ b" by (auto simp: strings_Contains_iff)
  then have "ps @ s @ ss = (ps @ a) @ t @ (b @ ss)" by simp
  then show ?thesis unfolding strings_Contains_iff by blast
qed

lemma strings_Contains_prefix: "strings_Contains (sub @ ss) sub"
  using strings_Contains_middle [of "[]" sub ss] by simp

lemma strings_Contains_self: "strings_Contains s s"
  using strings_Contains_middle [of "[]" s "[]"] by simp

lemma strings_Contains_append_left:
  "strings_Contains s t \<Longrightarrow> strings_Contains (ps @ s) t"
  using strings_Contains_trans [of s t ps "[]"] by simp

lemma strings_Join_Contains:
  "e \<in> set es \<Longrightarrow> strings_Contains (strings_Join es sep) e"
proof (induction es sep rule: strings_Join.induct)
  case (1 sep)
  then show ?case by simp
next
  case (2 x sep)
  then show ?case by (simp add: strings_Contains_self)
next
  case (3 x y ys sep)
  show ?case
  proof (cases "e = x")
    case True
    then show ?thesis by (simp add: strings_Contains_prefix)
  next
    case False
    with "3.prems" have "e \<in> set (y # ys)" by simp
    then have "strings_Contains (strings_Join (y # ys) sep) e" by (rule "3.IH")
    then have "strings_Contains ((x @ sep) @ strings_Join (y # ys) sep) e"
      by (rule strings_Contains_append_left)
    then show ?thesis by simp
  qed
qed

lemma strings_Join_empty_sep: "strings_Join es [] = concat es"
  by (induction es "[] :: string" rule: strings_Join.induct) simp_all

subsection \<open>The sentinel\<close>

text \<open>
  Claim C1, as amended. When the release name contains the sentinel \<^verbatim>\<open>error\<close>,
  \<^verbatim>\<open>SyncRelease\<close>, \<^verbatim>\<open>ReleaseStatus\<close>, \<^verbatim>\<open>DeleteRelease\<close>, \<^verbatim>\<open>TestRelease\<close>,
  \<^verbatim>\<open>Lint\<close> and \<^verbatim>\<open>TemplateRelease\<close> return an error and leave the whole
  struct as it was, and so do \<^verbatim>\<open>UpdateDeps\<close> and \<^verbatim>\<open>BuildDeps\<close> when the chart
  contains it: nothing is recorded and every list keeps its length.
  \<^verbatim>\<open>DiffRelease\<close> is not among them.
\<close>

theorem sentinel_fails_unrecorded:
  assumes "strings_Contains s ''error''"
  shows "SyncRelease helm context s chart flags = (Some (Error ''error''), helm) \<and>
         ReleaseStatus helm context s flags = (Some (Error ''error''), helm) \<and>
         DeleteRelease helm context s flags = (Some (Error ''error''), helm) \<and>
         TestRelease helm context s flags = (Some (Error ''error''), helm) \<and>
         Lint helm s chart flags = (Some (Error ''error''), helm) \<and>
         TemplateRelease helm s chart flags = (Some (Error ''error''), helm) \<and>
         UpdateDeps helm s =
           (Some (Error (''simulated UpdateDeps failure for chart: '' @ s)), helm) \<and>
         BuildDeps helm name s flags = (Some (Error ''error''), helm)"
  using assms
  by (simp add: SyncRelease_def ReleaseStatus_def DeleteRelease_def TestRelease_def Lint_def
      TemplateRelease_def UpdateDeps_def BuildDeps_def)

theorem sentinel_fails_unrecorded_witness:
  "strings_Contains ''my-error-release'' ''error'' \<and>
   SyncRelease Helm_zero () ''my-error-release'' ''chart'' [''--wait''] =
     (Some (Error ''error''), Helm_zero) \<and>
   ReleaseStatus Helm_zero () ''my-error-release'' [''--wait''] =
     (Some (Error ''error''), Helm_zero) \<and>
   DeleteRelease Helm_zero () ''my-error-release'' [''--wait''] =
     (Some (Error ''error''), Helm_zero) \<and>
   TestRelease Helm_zero () ''my-error-release'' [''--wait''] =
     (Some (Error ''error''), Helm_zero) \<and>
   Lint Helm_zero ''my-error-release'' ''chart'' [''--wait''] =
     (Some (Error ''error''), Helm_zero) \<and>
   TemplateRelease Helm_zero ''my-error-release'' ''chart'' [''--wait''] =
     (Some (Error ''error''), Helm_zero) \<and>
   UpdateDeps Helm_zero ''my-error-release'' =
     (Some (Error ''simulated UpdateDeps failure for chart: my-error-release''), Helm_zero) \<and>
   BuildDeps Helm_zero ''app'' ''my-error-release'' [''--wait''] =
     (Some (Error ''error''), Helm_zero)"
proof -
  have h: "strings_Contains ''my-error-release'' ''error''" by simp
  show ?thesis
    using h sentinel_fails_unrecorded
      [OF h, of Helm_zero "()" "''chart''" "[''--wait'']" "''app''"]
    by simp
qed

text \<open>
  \<^verbatim>\<open>DiffRelease\<close> never looks for the sentinel: on the zero double a diff of the
  release \<^verbatim>\<open>error\<close> succeeds and is recorded, so \<^verbatim>\<open>Diffed\<close> grows.
\<close>

theorem diff_ignores_sentinel_counterexample:
  "strings_Contains ''error'' ''error'' \<and>
   fst (DiffRelease Helm_zero () ''error'' ''chart'' False []) = None \<and>
   Diffed (snd (DiffRelease Helm_zero () ''error'' ''chart'' False [])) =
     [\<lparr>Release_Name = ''error'', Release_Flags = []\<rparr>] \<and>
   length (Diffed (snd (DiffRelease Helm_zero () ''error'' ''chart'' False []))) \<noteq>
     length (Diffed Helm_zero)"
  by (simp add: DiffRelease_def Helm_zero_def)

subsection \<open>Resolving a diff\<close>

text \<open>
  Claim C2, as amended. With a diff-expectation map configured, \<^verbatim>\<open>DiffRelease\<close>
  appends the call to \<^verbatim>\<open>Diffed\<close> in every case and changes nothing else. Its
  result is the stored value when the key (name, chart, joined flags) is registered, nil
  included; the error \<^verbatim>\<open>unexpected diff with key: {name chart flags}\<close> when the key
  is not registered and \<^verbatim>\<open>FailOnUnexpectedDiff\<close> is set, a message that names the
  unmatched key and no other; and nil when the key is not registered and the flag is
  not set.
\<close>

theorem DiffRelease_resolves:
  assumes "Diffs helm = Some diffs"
  shows "snd (DiffRelease helm context name chart suppressDiff flags) =
           helm\<lparr>Diffed := Diffed helm @ [\<lparr>Release_Name = name, Release_Flags = flags\<rparr>]\<rparr> \<and>
         (\<forall>e. diffs \<lparr>DiffKey_Name = name, DiffKey_Chart = chart,
                     DiffKey_Flags = strings_Join flags ''''\<rparr> = Some e \<longrightarrow>
              fst (DiffRelease helm context name chart suppressDiff flags) = e) \<and>
         (diffs \<lparr>DiffKey_Name = name, DiffKey_Chart = chart,
                 DiffKey_Flags = strings_Join flags ''''\<rparr> = None \<and> FailOnUnexpectedDiff helm \<longrightarrow>
            fst (DiffRelease helm context name chart suppressDiff flags) =
              Some (Error (''unexpected diff with key: {'' @ name @ '' '' @ chart @ '' '' @
                           strings_Join flags '''' @ ''}''))) \<and>
         (diffs \<lparr>DiffKey_Name = name, DiffKey_Chart = chart,
                 DiffKey_Flags = strings_Join flags ''''\<rparr> = None \<and> \<not> FailOnUnexpectedDiff helm \<longrightarrow>
            fst (DiffRelease helm context name chart suppressDiff flags) = None)"
  using assms by (auto simp: DiffRelease_def Let_def fmt_DiffKey_def)

theorem DiffRelease_resolves_witness:
  "DiffRelease (Helm_diffs True) () ''app'' ''chart-x'' False [''--flag''] =
     (None, (Helm_diffs True)\<lparr>Diffed := [\<lparr>Release_Name = ''app'', Release_Flags = [''--flag'']\<rparr>]\<rparr>) \<and>
   DiffRelease (Helm_diffs True) () ''db'' ''chart-y'' False [] =
     (Some (Error ''exit status 2''),
      (Helm_diffs True)\<lparr>Diffed := [\<lparr>Release_Name = ''db'', Release_Flags = []\<rparr>]\<rparr>) \<and>
   DiffRelease (Helm_diffs True) () ''other'' ''chart-x'' False [''--flag''] =
     (Some (Error ''unexpected diff with key: {other chart-x --flag}''),
      (Helm_diffs True)\<lparr>Diffed := [\<lparr>Release_Name = ''other'', Release_Flags = [''--flag'']\<rparr>]\<rparr>) \<and>
   DiffRelease (Helm_diffs False) () ''other'' ''chart-x'' False [''--flag''] =
     (None, (Helm_diffs False)\<lparr>Diffed := [\<lparr>Release_Name = ''other'', Release_Flags = [''--flag'']\<rparr>]\<rparr>)"
proof -
  let ?m = "[\<lparr>DiffKey_Name = ''app'', DiffKey_Chart = ''chart-x'', DiffKey_Flags = ''--flag''\<rparr> \<mapsto> None,
             \<lparr>DiffKey_Name = ''db'', DiffKey_Chart = ''chart-y'', DiffKey_Flags = ''''\<rparr> \<mapsto> Some (Error ''exit status 2'')]"
  have t: "Diffs (Helm_diffs True) = Some ?m" and f: "Diffs (Helm_diffs False) = Some ?m"
    by (simp_all add: Helm_diffs_def Helm_zero_def)
  have d: "Diffed (Helm_diffs True) = []" "Diffed (Helm_diffs False) = []"
    "FailOnUnexpectedDiff (Helm_diffs True)" "\<not> FailOnUnexpectedDiff (Helm_diffs False)"
    by (simp_all add: Helm_diffs_def Helm_zero_def)
  show ?thesis
    using DiffRelease_resolves [OF t, of "()" "''app''" "''chart-x''" False "[''--flag'']"]
      DiffRelease_resolves [OF t, of "()" "''db''" "''chart-y''" False "[]"]
      DiffRelease_resolves [OF t, of "()" "''other''" "''chart-x''" False "[''--flag'']"]
      DiffRelease_resolves [OF f, of "()" "''other''" "''chart-x''" False "[''--flag'']"]
    by (simp add: d prod_eq_iff)
qed

text \<open>
  The message of the strict miss names the unmatched key only: neither configured key
  of the example occurs in it.
\<close>

theorem DiffRelease_known_keys_counterexample:
  "fst (DiffRelease (Helm_diffs True) () ''other'' ''chart-x'' False [''--flag'']) =
     Some (Error ''unexpected diff with key: {other chart-x --flag}'') \<and>
   \<not> strings_Contains ''unexpected diff with key: {other chart-x --flag}'' ''app'' \<and>
   \<not> strings_Contains ''unexpected diff with key: {other chart-x --flag}'' ''db''"
  by (simp add: DiffRelease_def Helm_diffs_def Helm_zero_def fmt_DiffKey_def)

subsection \<open>Resolving a list\<close>

text \<open>The message of a strict miss contains the key, its filter, its flags and every
  key the range loop visits.\<close>

lemma List_miss_message_contains:
  assumes "msg = ''unexpected list key: '' @ ListKey_String key @ '' not found in '' @
             strings_Join (map ListKey_String ks) '', ''"
  shows "strings_Contains msg (ListKey_String key)"
    and "strings_Contains msg (ListKey_Filter key)"
    and "strings_Contains msg (ListKey_Flags key)"
    and "k \<in> set ks \<Longrightarrow> strings_Contains msg (ListKey_String k)"
proof -
  show "strings_Contains msg (ListKey_String key)"
    unfolding assms by (rule strings_Contains_middle)
  have "strings_Contains (ListKey_String key) (ListKey_Filter key)"
    unfolding ListKey_String_def by (rule strings_Contains_middle)
  then show "strings_Contains msg (ListKey_Filter key)"
    unfolding assms by (rule strings_Contains_trans)
  have "strings_Contains ((''listkey(filter='' @ ListKey_Filter key @ '',flags='') @ ListKey_Flags key @ '')'')
          (ListKey_Flags key)"
    by (rule strings_Contains_middle)
  then have "strings_Contains (ListKey_String key) (ListKey_Flags key)"
    by (simp add: ListKey_String_def)
  then show "strings_Contains msg (ListKey_Flags key)"
    unfolding assms by (rule strings_Contains_trans)
  assume "k \<in> set ks"
  then have "ListKey_String k \<in> set (map ListKey_String ks)"
    by simp
  then have "strings_Contains (strings_Join (map ListKey_String ks) '', '') (ListKey_String k)"
    by (rule strings_Join_Contains)
  then have "strings_Contains ((''unexpected list key: '' @ ListKey_String key @ '' not found in '') @
               strings_Join (map ListKey_String ks) '', '') (ListKey_String k)"
    by (rule strings_Contains_append_left)
  then show "strings_Contains msg (ListKey_String k)"
    unfolding assms by simp
qed

lemma range_order_example:
  "range_order lists_example [key_app, key_db]" "range_order lists_example [key_db, key_app]"
  by (auto simp: range_order_def lists_example_def key_app_def key_db_def)

lemma List_strict_miss_example:
  "List (Helm_lists True) () ''^web$'' [''-A''] [key_db, key_app] =
     ('''', Some (Error ''unexpected list key: listkey(filter=^web$,flags=-A) not found in listkey(filter=^db$,flags=), listkey(filter=^app$,flags=--kube-contextdefault)''))"
  by (simp add: List_def Helm_lists_def Helm_zero_def ListKey_String_def lists_example_def
      key_app_def key_db_def)

text \<open>
  Claim C3. With a list-expectation map configured, \<^verbatim>\<open>List\<close> returns the registered
  string and no error when the key (filter, joined flags) is registered; when it is not
  and \<^verbatim>\<open>FailOnUnexpectedList\<close> is set, it returns the empty string and an error whose
  message contains the filter and the flags of the unmatched key and the printed form of
  every configured key, in whatever order the range loop visits the keys; when it is not
  and the flag is not set, it returns the empty string and no error.
\<close>

theorem List_resolves:
  assumes "Lists helm = Some m"
  shows "(\<forall>s. m \<lparr>ListKey_Filter = filter', ListKey_Flags = strings_Join flags ''''\<rparr> = Some s \<longrightarrow>
              List helm context filter' flags range_keys = (s, None)) \<and>
         (m \<lparr>ListKey_Filter = filter', ListKey_Flags = strings_Join flags ''''\<rparr> = None \<and>
          FailOnUnexpectedList helm \<longrightarrow>
            (\<exists>msg. List helm context filter' flags range_keys = ('''', Some (Error msg)) \<and>
               strings_Contains msg filter' \<and>
               strings_Contains msg (strings_Join flags '''') \<and>
               (\<forall>k \<in> set range_keys. strings_Contains msg (ListKey_String k)) \<and>
               (range_order m range_keys \<longrightarrow>
                  (\<forall>k \<in> dom m. strings_Contains msg (ListKey_String k))))) \<and>
         (m \<lparr>ListKey_Filter = filter', ListKey_Flags = strings_Join flags ''''\<rparr> = None \<and>
          \<not> FailOnUnexpectedList helm \<longrightarrow>
            List helm context filter' flags range_keys = ('''', None))"
proof -
  let ?key = "\<lparr>ListKey_Filter = filter', ListKey_Flags = strings_Join flags ''''\<rparr>"
  let ?msg = "''unexpected list key: '' @ ListKey_String ?key @ '' not found in '' @
                strings_Join (map ListKey_String range_keys) '', ''"
  have hit: "\<forall>s. m ?key = Some s \<longrightarrow> List helm context filter' flags range_keys = (s, None)"
    using assms by (simp add: List_def)
  have lenient: "m ?key = None \<and> \<not> FailOnUnexpectedList helm \<longrightarrow>
                   List helm context filter' flags range_keys = ('''', None)"
    using assms by (simp add: List_def)
  have strict: "m ?key = None \<and> FailOnUnexpectedList helm \<longrightarrow>
                  List helm context filter' flags range_keys = ('''', Some (Error ?msg))"
    using assms by (simp add: List_def)
  have visited: "\<forall>k \<in> set range_keys. strings_Contains ?msg (ListKey_String k)"
    using List_miss_message_contains(4) [of ?msg ?key range_keys] by blast
  then have configured: "range_order m range_keys \<longrightarrow>
      (\<forall>k \<in> dom m. strings_Contains ?msg (ListKey_String k))"
    by (simp add: range_order_def)
  have "strings_Contains ?msg filter'"
    using List_miss_message_contains(2) [of ?msg ?key range_keys] by simp
  moreover have "strings_Contains ?msg (strings_Join flags '''')"
    using List_miss_message_contains(3) [of ?msg ?key range_keys] by simp
  ultimately have "m ?key = None \<and> FailOnUnexpectedList helm \<longrightarrow>
            (\<exists>msg. List helm context filter' flags range_keys = ('''', Some (Error msg)) \<and>
               strings_Contains msg filter' \<and>
               strings_Contains msg (strings_Join flags '''') \<and>
               (\<forall>k \<in> set range_keys. strings_Contains msg (ListKey_String k)) \<and>
               (range_order m range_keys \<longrightarrow>
                  (\<forall>k \<in> dom m. strings_Contains msg (ListKey_String k))))"
    using strict visited configured by blast
  with hit lenient show ?thesis by blast
qed

theorem List_resolves_witness:
  "range_order lists_example [key_db, key_app] \<and>
   List (Helm_lists True) () ''^app$'' [''--kube-context'', ''default''] [key_db, key_app] =
     (''NAME REVISION'', None) \<and>
   List (Helm_lists True) () ''^db$'' [] [key_db, key_app] = ('''', None) \<and>
   List (Helm_lists True) () ''^web$'' [''-A''] [key_db, key_app] =
     ('''', Some (Error ''unexpected list key: listkey(filter=^web$,flags=-A) not found in listkey(filter=^db$,flags=), listkey(filter=^app$,flags=--kube-contextdefault)'')) \<and>
   List (Helm_lists False) () ''^web$'' [''-A''] [key_db, key_app] = ('''', None)"
proof -
  have t: "Lists (Helm_lists True) = Some lists_example"
    and f: "Lists (Helm_lists False) = Some lists_example"
    by (simp_all add: Helm_lists_def Helm_zero_def)
  have d: "FailOnUnexpectedList (Helm_lists True)" "\<not> FailOnUnexpectedList (Helm_lists False)"
    by (simp_all add: Helm_lists_def Helm_zero_def)
  have l: "lists_example \<lparr>ListKey_Filter = ''^app$'', ListKey_Flags = ''--kube-contextdefault''\<rparr> =
             Some ''NAME REVISION''"
    "lists_example \<lparr>ListKey_Filter = ''^db$'', ListKey_Flags = ''''\<rparr> = Some ''''"
    "lists_example \<lparr>ListKey_Filter = ''^web$'', ListKey_Flags = ''-A''\<rparr> = None"
    by (simp_all add: lists_example_def key_app_def key_db_def)
  show ?thesis
    using List_resolves [OF t, of "''^app$''" "[''--kube-context'', ''default'']" "()" "[key_db, key_app]"]
      List_resolves [OF t, of "''^db$''" "[]" "()" "[key_db, key_app]"]
      List_resolves [OF f, of "''^web$''" "[''-A'']" "()" "[key_db, key_app]"]
    by (simp add: d l List_strict_miss_example range_order_example)
qed

subsection \<open>No expectation map\<close>

text \<open>
  Claim C4. When \<^verbatim>\<open>Lists\<close> is nil, \<^verbatim>\<open>List\<close> returns the fixed non-empty
  placeholder and no error, whatever the filter and the flags; when \<^verbatim>\<open>Diffs\<close> is
  nil, \<^verbatim>\<open>DiffRelease\<close> returns nil, whatever the name, the chart and the flags.
\<close>

theorem no_expectation_map_defaults:
  "(Lists helm = None \<longrightarrow>
      List helm context filter' flags range_keys = (''dummy non-empty helm-list output'', None) \<and>
      fst (List helm context filter' flags range_keys) \<noteq> '''') \<and>
   (Diffs helm = None \<longrightarrow>
      fst (DiffRelease helm context name chart suppressDiff flags) = None)"
  by (simp add: List_def DiffRelease_def)

theorem no_expectation_map_defaults_witness:
  "Lists Helm_zero = None \<and> Diffs Helm_zero = None \<and>
   List Helm_zero () ''^app$'' [''--flag''] [] = (''dummy non-empty helm-list output'', None) \<and>
   fst (DiffRelease Helm_zero () ''app'' ''chart-x'' False [''--flag'']) = None"
proof -
  have h: "Lists Helm_zero = None" "Diffs Helm_zero = None"
    by (simp_all add: Helm_zero_def)
  show ?thesis
    using h no_expectation_map_defaults
      [of Helm_zero "()" "''^app$''" "[''--flag'']" "[]" "''app''" "''chart-x''" False]
    by simp
qed

subsection \<open>Flags are looked up joined\<close>

text \<open>
  Claim C10, as amended. For two flag lists with the same concatenation, on the same
  double with the same other arguments: \<^verbatim>\<open>DiffRelease\<close> returns the same error;
  \<^verbatim>\<open>List\<close> returns the same string and the same error when the range loops of the
  two calls visit the keys in the same order; and whatever the two orders are,
  \<^verbatim>\<open>List\<close> returns the same string, fails in both calls or in neither, and when
  it fails the two messages are the same text \<^verbatim>\<open>unexpected list key: ... not found in\<close>
  followed by the keys in the order of each call's own range loop.
\<close>

theorem joined_flags_indistinguishable:
  assumes "strings_Join flags1 '''' = strings_Join flags2 ''''"
  shows "fst (DiffRelease helm context name chart suppressDiff flags1) =
           fst (DiffRelease helm context name chart suppressDiff flags2) \<and>
         List helm context filter' flags1 range_keys = List helm context filter' flags2 range_keys \<and>
         fst (List helm context filter' flags1 keys1) = fst (List helm context filter' flags2 keys2) \<and>
         (snd (List helm context filter' flags1 keys1) = None) =
           (snd (List helm context filter' flags2 keys2) = None) \<and>
         (snd (List helm context filter' flags1 keys1) = None \<or>
          snd (List helm context filter' flags1 keys1) =
            Some (Error (''unexpected list key: '' @
              ListKey_String \<lparr>ListKey_Filter = filter', ListKey_Flags = strings_Join flags1 ''''\<rparr> @
              '' not found in '' @ strings_Join (map ListKey_String keys1) '', '')) \<and>
          snd (List helm context filter' flags2 keys2) =
            Some (Error (''unexpected list key: '' @
              ListKey_String \<lparr>ListKey_Filter = filter', ListKey_Flags = strings_Join flags1 ''''\<rparr> @
              '' not found in '' @ strings_Join (map ListKey_String keys2) '', '')))"
  using assms by (simp add: List_def DiffRelease_def Let_def split: option.splits)

theorem joined_flags_indistinguishable_witness:
  "strings_Join [''ab''] '''' = strings_Join [''a'', ''b''] '''' \<and>
   List Helm_joined () ''^app$'' [''ab''] [key_joined] = (''NAME'', None) \<and>
   List Helm_joined () ''^app$'' [''a'', ''b''] [key_joined] = (''NAME'', None) \<and>
   List Helm_joined () ''^web$'' [''ab''] [key_joined] =
     ('''', Some (Error ''unexpected list key: listkey(filter=^web$,flags=ab) not found in listkey(filter=^app$,flags=ab)'')) \<and>
   List Helm_joined () ''^web$'' [''a'', ''b''] [key_joined] =
     ('''', Some (Error ''unexpected list key: listkey(filter=^web$,flags=ab) not found in listkey(filter=^app$,flags=ab)'')) \<and>
   fst (DiffRelease Helm_joined () ''app'' ''chart-x'' False [''ab'']) =
     Some (Error ''exit status 2'') \<and>
   fst (DiffRelease Helm_joined () ''app'' ''chart-x'' False [''a'', ''b'']) =
     Some (Error ''exit status 2'')"
proof -
  have h: "strings_Join [''ab''] '''' = strings_Join [''a'', ''b''] ''''" by simp
  have l: "List Helm_joined () ''^app$'' [''ab''] [key_joined] = (''NAME'', None)"
    "List Helm_joined () ''^web$'' [''ab''] [key_joined] =
       ('''', Some (Error ''unexpected list key: listkey(filter=^web$,flags=ab) not found in listkey(filter=^app$,flags=ab)''))"
    by (simp_all add: List_def Helm_joined_def Helm_zero_def key_joined_def ListKey_String_def)
  have d: "fst (DiffRelease Helm_joined () ''app'' ''chart-x'' False [''ab'']) =
             Some (Error ''exit status 2'')"
    by (simp add: DiffRelease_def Helm_joined_def Helm_zero_def)
  show ?thesis
    using h l d
      joined_flags_indistinguishable
        [OF h, of Helm_joined "()" "''app''" "''chart-x''" False "''^app$''" "[key_joined]"
           "[key_joined]" "[key_joined]"]
      joined_flags_indistinguishable
        [OF h, of Helm_joined "()" "''app''" "''chart-x''" False "''^web$''" "[key_joined]"
           "[key_joined]" "[key_joined]"]
    by simp
qed

text \<open>
  On a strict miss with two configured keys the two calls can differ: each is a call on
  the same double with the same filter and flag lists of the same concatenation, and
  each range loop visits every key once, in its own order.
\<close>

theorem joined_flags_range_order_counterexample:
  "strings_Join [''ab''] '''' = strings_Join [''a'', ''b''] '''' \<and>
   Lists (Helm_lists True) = Some lists_example \<and>
   range_order lists_example [key_app, key_db] \<and>
   range_order lists_example [key_db, key_app] \<and>
   List (Helm_lists True) () ''^web$'' [''ab''] [key_app, key_db] =
     ('''', Some (Error ''unexpected list key: listkey(filter=^web$,flags=ab) not found in listkey(filter=^app$,flags=--kube-contextdefault), listkey(filter=^db$,flags=)'')) \<and>
   List (Helm_lists True) () ''^web$'' [''a'', ''b''] [key_db, key_app] =
     ('''', Some (Error ''unexpected list key: listkey(filter=^web$,flags=ab) not found in listkey(filter=^db$,flags=), listkey(filter=^app$,flags=--kube-contextdefault)'')) \<and>
   List (Helm_lists True) () ''^web$'' [''ab''] [key_app, key_db] \<noteq>
     List (Helm_lists True) () ''^web$'' [''a'', ''b''] [key_db, key_app]"
proof -
  have a: "List (Helm_lists True) () ''^web$'' [''ab''] [key_app, key_db] =
     ('''', Some (Error ''unexpected list key: listkey(filter=^web$,flags=ab) not found in listkey(filter=^app$,flags=--kube-contextdefault), listkey(filter=^db$,flags=)''))"
    by (simp add: List_def Helm_lists_def Helm_zero_def ListKey_String_def lists_example_def
        key_app_def key_db_def)
  have b: "List (Helm_lists True) () ''^web$'' [''a'', ''b''] [key_db, key_app] =
     ('''', Some (Error ''unexpected list key: listkey(filter=^web$,flags=ab) not found in listkey(filter=^db$,flags=), listkey(filter=^app$,flags=--kube-contextdefault)''))"
    by (simp add: List_def Helm_lists_def Helm_zero_def ListKey_String_def lists_example_def
        key_app_def key_db_def)
  have m: "Lists (Helm_lists True) = Some lists_example"
    by (simp add: Helm_lists_def Helm_zero_def)
  show ?thesis
    using range_order_example m by (simp add: a b)
qed

subsection \<open>Version queries\<close>

text \<open>The comparison of \<^verbatim>\<open>IsVersionAtLeast\<close> is the order of the spec.\<close>

lemma compareSegment_sign:
  "compareSegment a b = 0 \<longleftrightarrow> a = b"
  "0 < compareSegment a b \<longleftrightarrow> b < a"
  by (auto simp: compareSegment_def)

lemma semver_at_least_iff:
  "semver_Equal v w \<or> semver_GreaterThan v w \<longleftrightarrow> spec_at_least v w"
  by (auto simp: semver_Equal_def semver_GreaterThan_def semver_Compare_def spec_at_least_def
      compareSegment_def)

lemma semver_NewVersion_1_2_3: "semver_NewVersion ''1.2.3'' = Some (semver_Version 1 2 3)"
  by (simp add: semver_NewVersion_def strconv_ParseUint_def is_digit_def digit_val_def)

text \<open>
  Claim C6. \<^verbatim>\<open>IsVersionAtLeast(X)\<close> returns true exactly when a version is
  configured, \<open>X\<close> parses, and the configured version is at least the parsed one in
  the major.minor.patch order; with no version configured it returns false. For
  \<^verbatim>\<open>"1.2.3"\<close> it returns true when the configured version is 1.2.3 or 1.3.0 and
  false when it is 1.2.2.
\<close>

theorem IsVersionAtLeast_iff:
  "(IsVersionAtLeast helm X = Inr True \<longleftrightarrow>
      (\<exists>v x. Version helm = Some v \<and> semver_NewVersion X = Some x \<and> spec_at_least v x)) \<and>
   (Version helm = None \<longrightarrow> IsVersionAtLeast helm X = Inr False) \<and>
   (Version helm = Some (semver_Version 1 2 3) \<longrightarrow> IsVersionAtLeast helm ''1.2.3'' = Inr True) \<and>
   (Version helm = Some (semver_Version 1 3 0) \<longrightarrow> IsVersionAtLeast helm ''1.2.3'' = Inr True) \<and>
   (Version helm = Some (semver_Version 1 2 2) \<longrightarrow> IsVersionAtLeast helm ''1.2.3'' = Inr False)"
proof -
  have iff: "IsVersionAtLeast helm X = Inr True \<longleftrightarrow>
      (\<exists>v x. Version helm = Some v \<and> semver_NewVersion X = Some x \<and> spec_at_least v x)"
    by (auto simp: IsVersionAtLeast_def semver_MustParse_def semver_at_least_iff
        split: option.splits)
  have unset: "Version helm = None \<longrightarrow> IsVersionAtLeast helm X = Inr False"
    by (simp add: IsVersionAtLeast_def)
  have ex: "Version helm = Some v \<longrightarrow>
      IsVersionAtLeast helm ''1.2.3'' = Inr (spec_at_least v (semver_Version 1 2 3))" for v
    by (simp add: IsVersionAtLeast_def semver_MustParse_def semver_NewVersion_1_2_3
        semver_at_least_iff)
  have "spec_at_least (semver_Version 1 2 3) (semver_Version 1 2 3)"
    "spec_at_least (semver_Version 1 3 0) (semver_Version 1 2 3)"
    "\<not> spec_at_least (semver_Version 1 2 2) (semver_Version 1 2 3)"
    by (simp_all add: spec_at_least_def)
  with iff unset ex show ?thesis by simp
qed

theorem IsVersionAtLeast_iff_witness:
  "IsVersionAtLeast (Helm_version 1 2 3) ''1.2.3'' = Inr True \<and>
   IsVersionAtLeast (Helm_version 1 3 0) ''1.2.3'' = Inr True \<and>
   IsVersionAtLeast (Helm_version 1 2 2) ''1.2.3'' = Inr False \<and>
   IsVersionAtLeast Helm_zero ''1.2.3'' = Inr False"
proof -
  have v: "Version (Helm_version 1 2 3) = Some (semver_Version 1 2 3)"
    "Version (Helm_version 1 3 0) = Some (semver_Version 1 3 0)"
    "Version (Helm_version 1 2 2) = Some (semver_Version 1 2 2)"
    "Version Helm_zero = None"
    by (simp_all add: Helm_version_def Helm_zero_def)
  show ?thesis
    using v IsVersionAtLeast_iff [of "Helm_version 1 2 3" "''1.2.3''"]
      IsVersionAtLeast_iff [of "Helm_version 1 3 0" "''1.2.3''"]
      IsVersionAtLeast_iff [of "Helm_version 1 2 2" "''1.2.3''"]
      IsVersionAtLeast_iff [of Helm_zero "''1.2.3''"]
    by simp
qed

lemma semver_NewVersion_malformed: "semver_NewVersion ''not-a-version'' = None"
  by (simp add: semver_NewVersion_def strconv_ParseUint_def is_digit_def digit_val_def)

text \<open>
  Claim C7, as amended. When a version is configured and \<open>X\<close> does not parse,
  \<^verbatim>\<open>IsVersionAtLeast(X)\<close> panics: it returns neither a boolean nor an error.
\<close>

theorem IsVersionAtLeast_malformed_panics:
  assumes "Version helm = Some v" and "semver_NewVersion X = None"
  shows "IsVersionAtLeast helm X = Inl (MustParsePanic X)"
  using assms by (simp add: IsVersionAtLeast_def semver_MustParse_def)

theorem IsVersionAtLeast_malformed_panics_witness:
  "Version (Helm_version 3 1 0) = Some (semver_Version 3 1 0) \<and>
   semver_NewVersion ''not-a-version'' = None \<and>
   IsVersionAtLeast (Helm_version 3 1 0) ''not-a-version'' = Inl (MustParsePanic ''not-a-version'')"
proof -
  have v: "Version (Helm_version 3 1 0) = Some (semver_Version 3 1 0)"
    by (simp add: Helm_version_def Helm_zero_def)
  show ?thesis
    using v semver_NewVersion_malformed
      IsVersionAtLeast_malformed_panics [OF v semver_NewVersion_malformed]
    by simp
qed

text \<open>
  With no version configured the argument is never parsed: the call returns false for a
  string that does not parse.
\<close>

theorem IsVersionAtLeast_unset_malformed_counterexample:
  "Version Helm_zero = None \<and>
   semver_NewVersion ''not-a-version'' = None \<and>
   IsVersionAtLeast Helm_zero ''not-a-version'' = Inr False"
  by (simp add: semver_NewVersion_malformed IsVersionAtLeast_def Helm_zero_def)

text \<open>
  Claim C8 fails on the code. \<^verbatim>\<open>GetVersion\<close> on a double with no version configured
  dereferences the nil \<^verbatim>\<open>Version\<close> and panics, where \<^verbatim>\<open>IsHelm3\<close> and
  \<^verbatim>\<open>IsVersionAtLeast\<close> test the pointer first.
\<close>

theorem GetVersion_unset_panics:
  "Version Helm_zero = None \<and> GetVersion Helm_zero = Inl NilPointerDereference"
  by (simp add: GetVersion_def Helm_zero_def)

subsection \<open>Records are kept\<close>

lemma append_only_refl: "append_only helm helm"
  by (simp add: append_only_def)

lemma append_only_trans:
  "append_only h1 h2 \<Longrightarrow> append_only h2 h3 \<Longrightarrow> append_only h1 h3"
  unfolding append_only_def by (metis prefix_order.trans)

lemma UpdateDeps_append_only: "append_only helm (snd (UpdateDeps helm chart))"
  by (simp add: UpdateDeps_def append_only_def Let_def split: option.splits)

lemma SyncRelease_append_only:
  "append_only helm (snd (SyncRelease helm context name chart flags))"
  by (simp add: SyncRelease_def sync_def append_only_def Let_def split: option.splits)

lemma DiffRelease_append_only:
  "append_only helm (snd (DiffRelease helm context name chart suppressDiff flags))"
  by (simp add: DiffRelease_def append_only_def Let_def split: option.splits)

lemma apply_call_append_only: "append_only helm (apply_call helm c)"
proof (cases c)
  case (Call_UpdateDeps chart)
  then show ?thesis by (simp add: UpdateDeps_append_only)
next
  case (Call_SyncRelease ctx name chart flags)
  then show ?thesis by (simp add: SyncRelease_append_only)
next
  case (Call_DiffRelease ctx name chart suppressDiff flags)
  then show ?thesis by (simp add: DiffRelease_append_only)
qed (simp_all add: append_only_def BuildDeps_def SetExtraArgs_def SetHelmBinary_def
      SetEnableLiveOutput_def SetDisableForceUpdate_def AddRepo_def UpdateRepo_def
      RegistryLogin_def ReleaseStatus_def DeleteRelease_def TestRelease_def Fetch_def Lint_def
      TemplateRelease_def ChartPull_def ChartExport_def)

lemma run_append_only_aux: "append_only helm (run helm cs)"
proof (induction cs arbitrary: helm)
  case Nil
  show ?case by (simp add: append_only_refl)
next
  case (Cons c cs)
  have "append_only helm (apply_call helm c)" by (rule apply_call_append_only)
  moreover have "append_only (apply_call helm c) (run (apply_call helm c) cs)"
    by (rule Cons.IH)
  ultimately show ?case using append_only_trans by simp
qed

lemma run_example:
  "Charts (run Helm_recorded calls_example) = [''base'', ''ok-chart'', ''chart-x''] \<and>
   Releases (run Helm_recorded calls_example) =
     [\<lparr>Release_Name = ''first'', Release_Flags = []\<rparr>,
      \<lparr>Release_Name = ''app'', Release_Flags = [''--wait'']\<rparr>] \<and>
   Deleted (run Helm_recorded calls_example) = [\<lparr>Release_Name = ''old'', Release_Flags = []\<rparr>] \<and>
   Diffed (run Helm_recorded calls_example) =
     [\<lparr>Release_Name = ''app'', Release_Flags = [''--flag'']\<rparr>]"
  by (simp add: calls_example_def Helm_recorded_def Helm_zero_def UpdateDeps_def SyncRelease_def
      sync_def DiffRelease_def DeleteRelease_def AddRepo_def)

text \<open>
  Claim C9, as amended. After every sequence of calls, each of \<^verbatim>\<open>Charts\<close>,
  \<^verbatim>\<open>Releases\<close>, \<^verbatim>\<open>Deleted\<close>, \<^verbatim>\<open>Linted\<close>, \<^verbatim>\<open>Templated\<close> and \<^verbatim>\<open>Diffed\<close>
  starts with what it held before (no record is removed or edited, new ones come at the
  end), and the two expectation maps are unchanged. \<^verbatim>\<open>Repo\<close> is not among them.
\<close>

theorem run_appends_only:
  "prefix (Charts helm) (Charts (run helm cs)) \<and>
   prefix (Releases helm) (Releases (run helm cs)) \<and>
   prefix (Deleted helm) (Deleted (run helm cs)) \<and>
   prefix (Linted helm) (Linted (run helm cs)) \<and>
   prefix (Templated helm) (Templated (run helm cs)) \<and>
   prefix (Diffed helm) (Diffed (run helm cs)) \<and>
   Lists (run helm cs) = Lists helm \<and> Diffs (run helm cs) = Diffs helm"
  using run_append_only_aux [of helm cs] by (simp add: append_only_def)

theorem run_appends_only_witness:
  "Charts Helm_recorded = [''base''] \<and>
   Charts (run Helm_recorded calls_example) = [''base'', ''ok-chart'', ''chart-x''] \<and>
   prefix (Charts Helm_recorded) (Charts (run Helm_recorded calls_example)) \<and>
   Releases Helm_recorded = [\<lparr>Release_Name = ''first'', Release_Flags = []\<rparr>] \<and>
   Releases (run Helm_recorded calls_example) =
     [\<lparr>Release_Name = ''first'', Release_Flags = []\<rparr>,
      \<lparr>Release_Name = ''app'', Release_Flags = [''--wait'']\<rparr>] \<and>
   prefix (Releases Helm_recorded) (Releases (run Helm_recorded calls_example)) \<and>
   Lists (run Helm_recorded calls_example) = Lists Helm_recorded \<and>
   Diffs (run Helm_recorded calls_example) = Diffs Helm_recorded"
proof -
  have "Charts Helm_recorded = [''base'']"
    "Releases Helm_recorded = [\<lparr>Release_Name = ''first'', Release_Flags = []\<rparr>]"
    by (simp_all add: Helm_recorded_def)
  then show ?thesis
    using run_example run_appends_only [of Helm_recorded calls_example] by simp
qed

text \<open>
  \<^verbatim>\<open>AddRepo\<close> assigns \<^verbatim>\<open>Repo\<close>: a second call replaces what the first one
  recorded.
\<close>

theorem AddRepo_overwrites_counterexample:
  "Repo (run Helm_zero
     [Call_AddRepo ''stable'' ''https://a.example'' '''' '''' '''' '''' '''' '''' False False :: unit call]) =
     [''stable'', ''https://a.example'', '''', '''', '''', '''', '''', '''', ''false'', ''false''] \<and>
   Repo (run Helm_zero
     [Call_AddRepo ''stable'' ''https://a.example'' '''' '''' '''' '''' '''' '''' False False :: unit call,
      Call_AddRepo ''edge'' ''https://b.example'' '''' '''' '''' '''' '''' '''' True False]) =
     [''edge'', ''https://b.example'', '''', '''', '''', '''', '''', '''', ''true'', ''false''] \<and>
   ''stable'' \<notin> set (Repo (run Helm_zero
     [Call_AddRepo ''stable'' ''https://a.example'' '''' '''' '''' '''' '''' '''' False False :: unit call,
      Call_AddRepo ''edge'' ''https://b.example'' '''' '''' '''' '''' '''' '''' True False]))"
  by (simp add: AddRepo_def Helm_zero_def fmt_bool_def)

subsection \<open>Concurrent recording\<close>

text \<open>
  Run alone, the steps of a call leave the struct that the method returns in the
  sequential embedding.
\<close>

lemma ReleaseStatus_steps_alone:
  "map_option memory
     (run_schedule (spawn helm [ReleaseStatus_steps release flags])
        (replicate (length (ReleaseStatus_steps release flags)) 0)) =
   Some (snd (ReleaseStatus helm ctx release flags))"
  by (simp add: spawn_def ReleaseStatus_steps_def ReleaseStatus_def step_thread_def perform_def
      numeral_2_eq_2)

lemma DiffRelease_steps_alone:
  "map_option memory
     (run_schedule (spawn helm [DiffRelease_steps helm name flags])
        (replicate (length (DiffRelease_steps helm name flags)) 0)) =
   Some (snd (DiffRelease helm ctx name chart suppressDiff flags))"
proof (cases "DiffMutex helm")
  case None
  then show ?thesis
    by (simp add: spawn_def DiffRelease_steps_def DiffRelease_def step_thread_def perform_def
        numeral_2_eq_2 Let_def split: option.splits)
next
  case (Some mu)
  then show ?thesis
    by (simp add: spawn_def DiffRelease_steps_def DiffRelease_def step_thread_def perform_def
        numeral_eq_Suc Let_def split: option.splits)
qed

lemma SyncRelease_steps_alone:
  "map_option memory
     (run_schedule (spawn helm [SyncRelease_steps helm name chart flags])
        (replicate (length (SyncRelease_steps helm name chart flags)) 0)) =
   Some (snd (SyncRelease helm ctx name chart flags))"
proof (cases "strings_Contains name ''error''")
  case True
  then show ?thesis by (simp add: spawn_def SyncRelease_steps_def SyncRelease_def)
next
  case False
  then show ?thesis
    by (cases "ReleasesMutex helm"; cases "ChartsMutex helm")
      (simp_all add: spawn_def SyncRelease_steps_def SyncRelease_def sync_steps_def sync_def
        step_thread_def perform_def numeral_eq_Suc Let_def)
qed

text \<open>
  Under \<^verbatim>\<open>DiffMutex\<close> every step of a \<^verbatim>\<open>DiffRelease\<close> call keeps the invariant.
\<close>

lemma sum_list_map_update:
  fixes f :: "'a \<Rightarrow> nat"
  shows "i < length ts \<Longrightarrow>
    sum_list (map f (ts[i := t])) + f (ts ! i) = sum_list (map f ts) + f t"
proof (induction ts arbitrary: i)
  case Nil
  then show ?case by simp
next
  case (Cons x xs)
  show ?case
  proof (cases i)
    case 0
    then show ?thesis by simp
  next
    case (Suc k)
    with Cons.prems have "k < length xs" by simp
    then have "sum_list (map f (xs[k := t])) + f (xs ! k) = sum_list (map f xs) + f t"
      by (rule Cons.IH)
    with Suc show ?thesis by simp
  qed
qed

lemma stores_left_update:
  "i < length ts \<Longrightarrow>
   stores_left (ts[i := t]) + length (filter is_Store_Diffed (todo (ts ! i))) =
   stores_left ts + length (filter is_Store_Diffed (todo t))"
  unfolding stores_left_def by (rule sum_list_map_update)

lemma diff_inv_step:
  assumes inv: "diff_inv n_total cfg" and step: "step_thread cfg i = Some cfg'"
  shows "diff_inv n_total cfg'"
proof -
  let ?ts = "threads cfg" and ?t = "threads cfg ! i" and ?d = "Diffed (memory cfg)"
  from step have i: "i < length ?ts"
    by (simp add: step_thread_def split: if_splits)
  from inv have phases: "\<forall>j < length ?ts. diff_phase (holder cfg M_Diff = Some j) ?d (?ts ! j)"
    and n_total: "length ?d + stores_left ?ts = n_total"
    by (simp_all add: diff_inv_def)
  from phases i have ph: "diff_phase (holder cfg M_Diff = Some i) ?d ?t" by simp
  from step i have ne: "todo ?t \<noteq> []"
    by (auto simp: step_thread_def split: list.splits)
  from ph ne consider
      (lock) r where "todo ?t = [Lock M_Diff, Load_Diffed, Store_Diffed r, Unlock M_Diff]"
        "holder cfg M_Diff \<noteq> Some i"
    | (load) r where "todo ?t = [Load_Diffed, Store_Diffed r, Unlock M_Diff]"
        "holder cfg M_Diff = Some i"
    | (store) r where "todo ?t = [Store_Diffed r, Unlock M_Diff]"
        "holder cfg M_Diff = Some i" "loaded ?t = ?d"
    | (unlock) "todo ?t = [Unlock M_Diff]" "holder cfg M_Diff = Some i"
    unfolding diff_phase_def by blast
  then show ?thesis
  proof cases
    case lock
    with step i have free: "holder cfg M_Diff = None"
      and cfg': "cfg' = cfg\<lparr>holder := (holder cfg)(M_Diff := Some i),
                   threads := ?ts[i := ?t\<lparr>todo := [Load_Diffed, Store_Diffed r, Unlock M_Diff]\<rparr>]\<rparr>"
      by (auto simp: step_thread_def perform_def split: if_splits)
    have "diff_phase (holder cfg' M_Diff = Some j) (Diffed (memory cfg')) (threads cfg' ! j)"
      if j: "j < length (threads cfg')" for j
    proof (cases "j = i")
      case True
      with i show ?thesis by (simp add: cfg' diff_phase_def)
    next
      case False
      from j have "j < length ?ts" by (simp add: cfg')
      with phases have "diff_phase (holder cfg M_Diff = Some j) ?d (?ts ! j)" by simp
      with free False show ?thesis by (simp add: cfg' diff_phase_def)
    qed
    moreover have "stores_left (threads cfg') = stores_left ?ts"
      using stores_left_update [OF i, of "?t\<lparr>todo := [Load_Diffed, Store_Diffed r, Unlock M_Diff]\<rparr>"]
        lock(1) by (simp add: cfg')
    ultimately show ?thesis using n_total by (simp add: diff_inv_def cfg')
  next
    case load
    with step i have
      cfg': "cfg' = cfg\<lparr>threads := ?ts[i := ?t\<lparr>todo := [Store_Diffed r, Unlock M_Diff],
                                                    loaded := ?d\<rparr>]\<rparr>"
      by (auto simp: step_thread_def perform_def split: if_splits)
    have "diff_phase (holder cfg' M_Diff = Some j) (Diffed (memory cfg')) (threads cfg' ! j)"
      if j: "j < length (threads cfg')" for j
    proof (cases "j = i")
      case True
      with i load(2) show ?thesis by (simp add: cfg' diff_phase_def)
    next
      case False
      from j have "j < length ?ts" by (simp add: cfg')
      with phases have "diff_phase (holder cfg M_Diff = Some j) ?d (?ts ! j)" by simp
      with False show ?thesis by (simp add: cfg')
    qed
    moreover have "stores_left (threads cfg') = stores_left ?ts"
      using stores_left_update [OF i, of "?t\<lparr>todo := [Store_Diffed r, Unlock M_Diff], loaded := ?d\<rparr>"]
        load(1) by (simp add: cfg')
    ultimately show ?thesis using n_total by (simp add: diff_inv_def cfg')
  next
    case store
    with step i have
      cfg': "cfg' = cfg\<lparr>memory := (memory cfg)\<lparr>Diffed := ?d @ [r]\<rparr>,
                         threads := ?ts[i := ?t\<lparr>todo := [Unlock M_Diff]\<rparr>]\<rparr>"
      by (auto simp: step_thread_def perform_def split: if_splits)
    have "diff_phase (holder cfg' M_Diff = Some j) (Diffed (memory cfg')) (threads cfg' ! j)"
      if j: "j < length (threads cfg')" for j
    proof (cases "j = i")
      case True
      with i store(2) show ?thesis by (simp add: cfg' diff_phase_def)
    next
      case False
      from j have "j < length ?ts" by (simp add: cfg')
      with phases have "diff_phase (holder cfg M_Diff = Some j) ?d (?ts ! j)" by simp
      with False store(2) show ?thesis by (simp add: cfg' diff_phase_def)
    qed
    moreover have "stores_left (threads cfg') + 1 = stores_left ?ts"
      using stores_left_update [OF i, of "?t\<lparr>todo := [Unlock M_Diff]\<rparr>"] store(1)
      by (simp add: cfg')
    ultimately show ?thesis using n_total by (simp add: diff_inv_def cfg')
  next
    case unlock
    with step i have
      cfg': "cfg' = cfg\<lparr>holder := (holder cfg)(M_Diff := None),
                         threads := ?ts[i := ?t\<lparr>todo := []\<rparr>]\<rparr>"
      by (auto simp: step_thread_def perform_def split: if_splits)
    have "diff_phase (holder cfg' M_Diff = Some j) (Diffed (memory cfg')) (threads cfg' ! j)"
      if j: "j < length (threads cfg')" for j
    proof (cases "j = i")
      case True
      with i show ?thesis by (simp add: cfg' diff_phase_def)
    next
      case False
      from j have "j < length ?ts" by (simp add: cfg')
      with phases have "diff_phase (holder cfg M_Diff = Some j) ?d (?ts ! j)" by simp
      with False unlock(2) show ?thesis by (simp add: cfg' diff_phase_def)
    qed
    moreover have "stores_left (threads cfg') = stores_left ?ts"
      using stores_left_update [OF i, of "?t\<lparr>todo := []\<rparr>"] unlock(1)
      by (simp add: cfg')
    ultimately show ?thesis using n_total by (simp add: diff_inv_def cfg')
  qed
qed

lemma diff_inv_run:
  "diff_inv n_total cfg \<Longrightarrow> run_schedule cfg sched = Some final \<Longrightarrow> diff_inv n_total final"
proof (induction sched arbitrary: cfg)
  case Nil
  then show ?case by simp
next
  case (Cons i sched)
  from Cons.prems(2) obtain cfg' where s: "step_thread cfg i = Some cfg'"
    and r: "run_schedule cfg' sched = Some final"
    by (auto split: option.splits)
  from Cons.prems(1) s have "diff_inv n_total cfg'" by (rule diff_inv_step)
  then show ?case using r by (rule Cons.IH)
qed

lemma stores_left_finished: "finished cfg \<Longrightarrow> stores_left (threads cfg) = 0"
  by (auto simp: finished_def stores_left_def list_all_iff)

lemma diff_inv_spawn:
  assumes "DiffMutex helm \<noteq> None"
  shows "diff_inv (length (Diffed helm) + length calls)
           (spawn helm (map (\<lambda>(name, flags). DiffRelease_steps helm name flags) calls))"
proof -
  have "stores_left (map (\<lambda>p. \<lparr>todo = p, loaded = [], loaded_charts = []\<rparr>)
          (map (\<lambda>(name, flags). DiffRelease_steps helm name flags) calls)) = length calls"
    using assms by (induction calls) (auto simp: stores_left_def DiffRelease_steps_def)
  then show ?thesis
    using assms
    by (auto simp: diff_inv_def spawn_def diff_phase_def DiffRelease_steps_def split: prod.splits)
qed

text \<open>
  With \<^verbatim>\<open>DiffMutex\<close> set, however the steps of concurrent \<^verbatim>\<open>DiffRelease\<close> calls
  interleave, when all of them have returned \<^verbatim>\<open>Diffed\<close> is longer by the number
  of calls: each call has appended one record.
\<close>

theorem concurrent_diffs_all_recorded:
  assumes "DiffMutex helm \<noteq> None"
    and "run_schedule (spawn helm (map (\<lambda>(name, flags). DiffRelease_steps helm name flags) calls))
           sched = Some final"
    and "finished final"
  shows "length (Diffed (memory final)) = length (Diffed helm) + length calls"
proof -
  have "diff_inv (length (Diffed helm) + length calls) final"
    using diff_inv_spawn [OF assms(1)] assms(2) by (rule diff_inv_run)
  then show ?thesis using stores_left_finished [OF assms(3)] by (simp add: diff_inv_def)
qed

theorem concurrent_diffs_all_recorded_witness:
  "DiffMutex Helm_locked \<noteq> None \<and>
   run_schedule (spawn Helm_locked
       (map (\<lambda>(name, flags). DiffRelease_steps Helm_locked name flags)
          [(''app'', [''--flag'']), (''db'', [])]))
     [1, 1, 1, 1, 0, 0, 0, 0] = Some diffs_final \<and>
   finished diffs_final \<and>
   length (Diffed (memory diffs_final)) = length (Diffed Helm_locked) + 2"
proof -
  have m: "DiffMutex Helm_locked \<noteq> None"
    by (simp add: Helm_locked_def Helm_zero_def)
  have r: "run_schedule (spawn Helm_locked
       (map (\<lambda>(name, flags). DiffRelease_steps Helm_locked name flags)
          [(''app'', [''--flag'']), (''db'', [])]))
     [1, 1, 1, 1, 0, 0, 0, 0] = Some diffs_final"
    by (simp add: spawn_def DiffRelease_steps_def step_thread_def perform_def Helm_locked_def
        Helm_zero_def diffs_final_def)
  have f: "finished diffs_final"
    by (simp add: finished_def diffs_final_def)
  show ?thesis
    using m r f concurrent_diffs_all_recorded [OF m r f] by simp
qed

text \<open>
  Claim C5 fails on the code. \<^verbatim>\<open>ReleaseStatus\<close> appends to \<^verbatim>\<open>Releases\<close> without
  taking \<^verbatim>\<open>ReleasesMutex\<close>. On a double with the mutex set, two concurrent calls
  can both read the empty slice before either writes: both return, and only the
  record of the second write is kept.
\<close>

theorem concurrent_ReleaseStatus_loses_record:
  "ReleasesMutex Helm_locked \<noteq> None \<and>
   run_schedule (spawn Helm_locked [ReleaseStatus_steps ''a'' [], ReleaseStatus_steps ''b'' []])
     [0, 1, 0, 1] =
   Some \<lparr>memory = Helm_locked\<lparr>Releases := [\<lparr>Release_Name = ''b'', Release_Flags = []\<rparr>]\<rparr>,
         holder = (\<lambda>m. None),
         threads = [\<lparr>todo = [], loaded = [], loaded_charts = []\<rparr>,
                    \<lparr>todo = [], loaded = [], loaded_charts = []\<rparr>]\<rparr>"
  by (simp add: spawn_def ReleaseStatus_steps_def step_thread_def perform_def Helm_locked_def
      Helm_zero_def)

end
